theory Spec2Isabelle
  imports Main "HOL-Library.Word"
begin

section \<open>The Raspberry Pi HAL of RadioLib (examples/NonArduino/Raspberry/PiHal.h)\<close>

text \<open>
  \<open>PiHal\<close> forwards the operations of RadioLib's hardware abstraction layer to the
  pigpio library and emulates interrupts with pigpio alerts. The embedding keeps the
  adapter's own state in a record, logs every call into pigpio in the order it is made,
  and takes what pigpio answers (a level read, a tick, an SPI handle) from the platform.
\<close>

subsection \<open>Machine types\<close>

text \<open>
  \<open>uint32_t\<close>, \<open>unsigned\<close> and \<open>int\<close> are 32-bit words. A C \<open>int\<close> is kept as its
  bit pattern and read with \<open>sint\<close>; converting between \<open>int\<close> and \<open>uint32_t\<close> leaves
  the bits as they are, so the C comparison of a \<open>uint32_t\<close> with an \<open>int\<close> (which
  converts the \<open>int\<close>) is equality of the two words. \<open>RadioLibTime_t\<close> is
  \<open>unsigned long\<close> in RadioLib's TypeDef.h, which is not among the sources: its width
  is the type parameter \<open>'t\<close>, and \<open>long\<close> has the same width.
  A function pointer is \<open>None\<close> when it is \<open>NULL\<close> and \<open>Some a\<close> for the function
  with identity \<open>a\<close>.
\<close>

type_synonym u8 = "8 word"
type_synonym u32 = "32 word"
type_synonym c_int = "32 word"
type_synonym RadioLibISR = "nat option"

subsection \<open>The pigpio library as seen by the adapter\<close>

text \<open>
  One constructor per pigpio function that PiHal.h calls, with the arguments passed.
  \<open>gpioSetAlertFuncEx\<close> is called either with \<open>pigpioAlertHandler\<close> and \<open>this\<close>
  (flag \<open>True\<close>) or with \<open>NULL\<close> and \<open>NULL\<close> (flag \<open>False\<close>).
\<close>

datatype call =
    GpioInitialise
  | GpioTerminate
  | GpioSetMode u32 u32
  | GpioWrite u32 u32
  | GpioRead u32
  | GpioSetAlertFuncEx u32 bool
  | GpioDelay u32
  | GpioTick
  | SpiOpen u32 u32 u32
  | SpiXfer u32 "u8 list" u32
  | SpiClose u32

text \<open>
  The macros and the library functions that PiHal.h uses and does not define are the
  fields of the platform. \<open>PI_MAX_USER_GPIO\<close> is a non-negative integer literal of
  pigpio.h (of type \<open>int\<close>, so that comparing it with an \<open>int\<close> is a signed comparison
  and comparing it with a \<open>uint32_t\<close> an unsigned one); \<open>RADIOLIB_NC\<close> is RadioLib's
  marker of a pin that is not connected. What a pigpio function returns is a function of
  the calls made so far, the one that is answered included.
\<close>

record platform =
  PI_MAX_USER_GPIO :: nat
  RADIOLIB_NC :: u32
  PI_INPUT :: u32
  PI_OUTPUT :: u32
  PI_LOW :: u32
  PI_HIGH :: u32
  gpioRead_ret :: "call list \<Rightarrow> c_int"
  gpioTick_ret :: "call list \<Rightarrow> u32"
  spiOpen_ret :: "call list \<Rightarrow> c_int"

subsection \<open>The adapter's state\<close>

record PiHal =
  interruptEnabled :: "bool list"
  interruptModes :: "u32 list"
  interruptCallbacks :: "RadioLibISR list"
  spiSpeed :: u32
  spiChannel :: u8
  spiHandle :: c_int

text \<open>The adapter together with the log of the calls it has made into pigpio.\<close>

record world =
  hal :: PiHal
  calls :: "call list"

text \<open>
  The three arrays are declared with \<open>PI_MAX_USER_GPIO + 1\<close> elements. The constructor
  initialises the two SPI scalars; \<open>_spiHandle\<close> has the default member initialiser
  \<open>-1\<close>; the arrays are not initialised, so their first contents are arguments here.
\<close>

definition hal_ok :: "platform \<Rightarrow> PiHal \<Rightarrow> bool" where
  "hal_ok e h \<longleftrightarrow>
     length (interruptEnabled h) = PI_MAX_USER_GPIO e + 1 \<and>
     length (interruptModes h) = PI_MAX_USER_GPIO e + 1 \<and>
     length (interruptCallbacks h) = PI_MAX_USER_GPIO e + 1"

definition PiHal_new :: "bool list \<Rightarrow> u32 list \<Rightarrow> RadioLibISR list \<Rightarrow> u8 \<Rightarrow> u32 \<Rightarrow> PiHal" where
  "PiHal_new en md cb spiChannel' spiSpeed' =
     \<lparr>interruptEnabled = en, interruptModes = md, interruptCallbacks = cb,
      spiSpeed = spiSpeed', spiChannel = spiChannel', spiHandle = - 1\<rparr>"

subsection \<open>Array accesses\<close>

text \<open>
  C does not check an index; reading or writing outside an array is undefined
  behaviour. The model makes each access of the three arrays a checked one, so that an
  access out of bounds is a result of its own.
\<close>

datatype error = OutOfBounds

text \<open>Sequencing of accesses: the first one out of bounds ends the run.\<close>

definition and_then :: "error + 'a \<Rightarrow> ('a \<Rightarrow> error + 'b) \<Rightarrow> error + 'b" where
  "and_then m f = (case m of Inl x \<Rightarrow> Inl x | Inr a \<Rightarrow> f a)"

definition arr_read :: "'a list \<Rightarrow> int \<Rightarrow> error + 'a" where
  "arr_read xs i = (if 0 \<le> i \<and> i < int (length xs) then Inr (xs ! nat i) else Inl OutOfBounds)"

definition arr_write :: "'a list \<Rightarrow> int \<Rightarrow> 'a \<Rightarrow> error + 'a list" where
  "arr_write xs i v = (if 0 \<le> i \<and> i < int (length xs) then Inr (xs[nat i := v]) else Inl OutOfBounds)"

subsection \<open>GPIO methods\<close>

definition lib :: "call \<Rightarrow> world \<Rightarrow> world" where
  "lib c w = w\<lparr>calls := calls w @ [c]\<rparr>"

definition pinMode :: "platform \<Rightarrow> world \<Rightarrow> u32 \<Rightarrow> u32 \<Rightarrow> world" where
  "pinMode e w pin mode =
     (if pin = RADIOLIB_NC e then w else lib (GpioSetMode pin mode) w)"

definition digitalWrite :: "platform \<Rightarrow> world \<Rightarrow> u32 \<Rightarrow> u32 \<Rightarrow> world" where
  "digitalWrite e w pin val =
     (if pin = RADIOLIB_NC e then w else lib (GpioWrite pin val) w)"

definition digitalRead :: "platform \<Rightarrow> world \<Rightarrow> u32 \<Rightarrow> world \<times> u32" where
  "digitalRead e w pin =
     (if pin = RADIOLIB_NC e then (w, 0)
      else (let w' = lib (GpioRead pin) w in (w', gpioRead_ret e (calls w'))))"

definition attachInterrupt :: "platform \<Rightarrow> world \<Rightarrow> u32 \<Rightarrow> RadioLibISR \<Rightarrow> u32 \<Rightarrow> error + world" where
  "attachInterrupt e w interruptNum interruptCb mode =
     (if interruptNum = RADIOLIB_NC e \<or> PI_MAX_USER_GPIO e < unat interruptNum then Inr w
      else
        and_then (arr_write (interruptEnabled (hal w)) (uint interruptNum) True) (\<lambda>en.
        and_then (arr_write (interruptModes (hal w)) (uint interruptNum) mode) (\<lambda>md.
        and_then (arr_write (interruptCallbacks (hal w)) (uint interruptNum) interruptCb) (\<lambda>cb.
        Inr (lib (GpioSetAlertFuncEx interruptNum True)
              (w\<lparr>hal := (hal w)\<lparr>interruptEnabled := en, interruptModes := md,
                                 interruptCallbacks := cb\<rparr>\<rparr>))))))"

definition detachInterrupt :: "platform \<Rightarrow> world \<Rightarrow> u32 \<Rightarrow> error + world" where
  "detachInterrupt e w interruptNum =
     (if interruptNum = RADIOLIB_NC e \<or> PI_MAX_USER_GPIO e < unat interruptNum then Inr w
      else
        and_then (arr_write (interruptEnabled (hal w)) (uint interruptNum) False) (\<lambda>en.
        and_then (arr_write (interruptModes (hal w)) (uint interruptNum) 0) (\<lambda>md.
        and_then (arr_write (interruptCallbacks (hal w)) (uint interruptNum) None) (\<lambda>cb.
        Inr (lib (GpioSetAlertFuncEx interruptNum False)
              (w\<lparr>hal := (hal w)\<lparr>interruptEnabled := en, interruptModes := md,
                                 interruptCallbacks := cb\<rparr>\<rparr>))))))"

subsection \<open>Timing\<close>

text \<open>
  \<open>delay\<close> multiplies in \<open>RadioLibTime_t\<close> and passes the product to the \<open>uint32_t\<close>
  parameter of \<open>gpioDelay\<close>; \<open>millis\<close> divides the \<open>uint32_t\<close> tick and widens the
  quotient to \<open>RadioLibTime_t\<close>.
\<close>

definition delay :: "platform \<Rightarrow> world \<Rightarrow> 't::len word \<Rightarrow> world" where
  "delay e w ms = lib (GpioDelay (ucast (ms * 1000))) w"

definition delayMicroseconds :: "platform \<Rightarrow> world \<Rightarrow> 't::len word \<Rightarrow> world" where
  "delayMicroseconds e w us = lib (GpioDelay (ucast us)) w"

definition millis :: "platform \<Rightarrow> world \<Rightarrow> world \<times> 't::len word" where
  "millis e w = (let w' = lib GpioTick w in (w', ucast (gpioTick_ret e (calls w') div 1000)))"

definition micros :: "platform \<Rightarrow> world \<Rightarrow> world \<times> 't::len word" where
  "micros e w = (let w' = lib GpioTick w in (w', ucast (gpioTick_ret e (calls w'))))"

text \<open>
  The loop of \<open>pulseIn\<close> has no bound of its own: it ends when the pin reads another
  level or when the tick has moved by more than \<open>timeout\<close>. A run that never ends is
  \<open>None\<close>. \<open>start\<close> and \<open>curtick\<close> are \<open>uint32_t\<close> variables; the subtractions are
  made in \<open>RadioLibTime_t\<close>. The value returned is the bit pattern of the \<open>long\<close>.
\<close>

partial_function (option) pulseIn_loop ::
  "platform \<Rightarrow> u32 \<Rightarrow> u32 \<Rightarrow> 't::len word \<Rightarrow> u32 \<Rightarrow> u32 \<Rightarrow> world \<Rightarrow> (world \<times> 't word) option" where
  "pulseIn_loop e pin state timeout start curtick w =
     (case digitalRead e w pin of (w1, r) \<Rightarrow>
        if r = state then
          (case micros e w1 of (w2, t) \<Rightarrow>
             if timeout < t - ucast curtick then Some (w2, 0)
             else pulseIn_loop e pin state timeout start curtick w2)
        else
          (case micros e w1 of (w2, t) \<Rightarrow> Some (w2, t - ucast start)))"

declare pulseIn_loop.simps [code]

definition pulseIn :: "platform \<Rightarrow> world \<Rightarrow> u32 \<Rightarrow> u32 \<Rightarrow> 't::len word \<Rightarrow> (world \<times> 't word) option" where
  "pulseIn e w pin state timeout =
     (if pin = RADIOLIB_NC e then Some (w, 0)
      else
        let w0 = pinMode e w pin (PI_INPUT e);
            (w1, t1) = (micros e w0 :: world \<times> 't word);
            start = (ucast t1 :: u32);
            (w2, t2) = (micros e w1 :: world \<times> 't word);
            curtick = (ucast t2 :: u32)
        in pulseIn_loop e pin state timeout start curtick w2)"

subsection \<open>SPI\<close>

definition spiBegin :: "platform \<Rightarrow> world \<Rightarrow> world" where
  "spiBegin e w =
     (if sint (spiHandle (hal w)) < 0 then
        (let w' = lib (SpiOpen (ucast (spiChannel (hal w))) (spiSpeed (hal w)) 0) w
         in w'\<lparr>hal := (hal w')\<lparr>spiHandle := spiOpen_ret e (calls w')\<rparr>\<rparr>)
      else w)"

definition spiBeginTransaction :: "platform \<Rightarrow> world \<Rightarrow> world" where
  "spiBeginTransaction e w = w"

text \<open>
  The bytes that \<open>spiXfer\<close> stores through \<open>in\<close> are memory of the caller, not state of
  the adapter; \<open>len\<close> is a \<open>size_t\<close> passed to an \<open>unsigned\<close> parameter.
\<close>

definition spiTransfer :: "platform \<Rightarrow> world \<Rightarrow> u8 list \<Rightarrow> nat \<Rightarrow> world" where
  "spiTransfer e w out len = lib (SpiXfer (spiHandle (hal w)) out (of_nat len)) w"

definition spiEndTransaction :: "platform \<Rightarrow> world \<Rightarrow> world" where
  "spiEndTransaction e w = w"

definition spiEnd :: "platform \<Rightarrow> world \<Rightarrow> world" where
  "spiEnd e w =
     (if 0 \<le> sint (spiHandle (hal w)) then
        (let w' = lib (SpiClose (spiHandle (hal w))) w
         in w'\<lparr>hal := (hal w')\<lparr>spiHandle := - 1\<rparr>\<rparr>)
      else w)"

subsection \<open>Start and stop\<close>

definition init :: "platform \<Rightarrow> world \<Rightarrow> world" where
  "init e w =
     (let w1 = lib GpioInitialise w;
          w2 = spiBegin e w1;
          w3 = lib (GpioSetMode 18 (PI_OUTPUT e)) w2
      in lib (GpioWrite 18 (PI_HIGH e)) w3)"

text \<open>\<open>term\<close> of the source; the name is a keyword of Isabelle.\<close>

definition term_hal :: "platform \<Rightarrow> world \<Rightarrow> world" where
  "term_hal e w =
     (let w1 = spiEnd e w;
          w2 = lib (GpioSetMode 18 (PI_OUTPUT e)) w1;
          w3 = lib (GpioWrite 18 (PI_LOW e)) w2
      in lib GpioTerminate w3)"

subsection \<open>The alert handler\<close>

text \<open>
  \<open>event\<close> and \<open>level\<close> are \<open>int\<close>. The guard compares \<open>event\<close> with the macro as signed
  numbers; the arrays are then indexed with \<open>event\<close> as it is. The conditions are
  evaluated from left to right and stop at the first that fails. The handler either
  returns without a call or calls the stored function.
\<close>

datatype dispatch = NoCall | Invoke nat

definition pigpioAlertHandler ::
  "platform \<Rightarrow> c_int \<Rightarrow> c_int \<Rightarrow> u32 \<Rightarrow> PiHal option \<Rightarrow> error + dispatch" where
  "pigpioAlertHandler e event level tick userdata =
     (if int (PI_MAX_USER_GPIO e) < sint event \<or> userdata = None then Inr NoCall
      else
        let h = the userdata in
        and_then (arr_read (interruptEnabled h) (sint event)) (\<lambda>en.
          if \<not> en then Inr NoCall
          else
            and_then (arr_read (interruptModes h) (sint event)) (\<lambda>md.
              if md \<noteq> level then Inr NoCall
              else
                and_then (arr_read (interruptCallbacks h) (sint event)) (\<lambda>cb.
                  case cb of None \<Rightarrow> Inr NoCall | Some f \<Rightarrow> Inr (Invoke f)))))"

subsection \<open>Sequences of method calls\<close>

text \<open>
  A client of the adapter calls its methods one after the other. \<open>'time\<close> is the
  type of the \<open>RadioLibTime_t\<close> arguments. A method that does not return leaves the
  sequence without a result (\<open>None\<close>); an access out of bounds ends it.
\<close>

datatype 'time op =
    Init
  | Term
  | PinMode u32 u32
  | DigitalWrite u32 u32
  | DigitalRead u32
  | AttachInterrupt u32 RadioLibISR u32
  | DetachInterrupt u32
  | Delay 'time
  | DelayMicroseconds 'time
  | Millis
  | Micros
  | PulseIn u32 u32 'time
  | SpiBegin
  | SpiBeginTransaction
  | SpiTransfer "u8 list" nat
  | SpiEndTransaction
  | SpiEnd

fun exec :: "platform \<Rightarrow> ('t::len word) op \<Rightarrow> world \<Rightarrow> (error + world) option" where
  "exec e Init w = Some (Inr (init e w))"
| "exec e Term w = Some (Inr (term_hal e w))"
| "exec e (PinMode pin mode) w = Some (Inr (pinMode e w pin mode))"
| "exec e (DigitalWrite pin val) w = Some (Inr (digitalWrite e w pin val))"
| "exec e (DigitalRead pin) w = Some (Inr (fst (digitalRead e w pin)))"
| "exec e (AttachInterrupt n cb mode) w = Some (attachInterrupt e w n cb mode)"
| "exec e (DetachInterrupt n) w = Some (detachInterrupt e w n)"
| "exec e (Delay ms) w = Some (Inr (delay e w ms))"
| "exec e (DelayMicroseconds us) w = Some (Inr (delayMicroseconds e w us))"
| "exec e Millis w = Some (Inr (fst (millis e w :: world \<times> 't word)))"
| "exec e Micros w = Some (Inr (fst (micros e w :: world \<times> 't word)))"
| "exec e (PulseIn pin state timeout) w = map_option (\<lambda>r. Inr (fst r)) (pulseIn e w pin state timeout)"
| "exec e SpiBegin w = Some (Inr (spiBegin e w))"
| "exec e SpiBeginTransaction w = Some (Inr (spiBeginTransaction e w))"
| "exec e (SpiTransfer out len) w = Some (Inr (spiTransfer e w out len))"
| "exec e SpiEndTransaction w = Some (Inr (spiEndTransaction e w))"
| "exec e SpiEnd w = Some (Inr (spiEnd e w))"

fun run :: "platform \<Rightarrow> ('t::len word) op list \<Rightarrow> world \<Rightarrow> (error + world) option" where
  "run e [] w = Some (Inr w)"
| "run e (x # xs) w =
     (case exec e x w of
        None \<Rightarrow> None
      | Some (Inl err) \<Rightarrow> Some (Inl err)
      | Some (Inr w') \<Rightarrow> run e xs w')"

subsection \<open>What the pin and the clock show during \<open>pulseIn\<close>\<close>

text \<open>
  For a connected pin \<open>pulseIn\<close> sets the mode, reads the tick twice (\<open>start\<close>, then
  \<open>curtick\<close>) and then samples: each round reads the pin and then the tick.
  \<open>pulse_calls e w pin i\<close> is the log when round \<open>i\<close> begins, \<open>pulse_level\<close> the
  level that the read of round \<open>i\<close> returns, \<open>pulse_tick\<close> the tick that the tick
  read of round \<open>i\<close> returns, \<open>pulse_start\<close> and \<open>pulse_curtick\<close> the two ticks read
  before the first round.
\<close>

definition pulse_calls :: "platform \<Rightarrow> world \<Rightarrow> u32 \<Rightarrow> nat \<Rightarrow> call list" where
  "pulse_calls e w pin i =
     calls w @ [GpioSetMode pin (PI_INPUT e), GpioTick, GpioTick] @
     concat (replicate i [GpioRead pin, GpioTick])"

definition pulse_level :: "platform \<Rightarrow> world \<Rightarrow> u32 \<Rightarrow> nat \<Rightarrow> u32" where
  "pulse_level e w pin i = gpioRead_ret e (pulse_calls e w pin i @ [GpioRead pin])"

definition pulse_tick :: "platform \<Rightarrow> world \<Rightarrow> u32 \<Rightarrow> nat \<Rightarrow> u32" where
  "pulse_tick e w pin i = gpioTick_ret e (pulse_calls e w pin (Suc i))"

definition pulse_start :: "platform \<Rightarrow> world \<Rightarrow> u32 \<Rightarrow> u32" where
  "pulse_start e w pin = gpioTick_ret e (calls w @ [GpioSetMode pin (PI_INPUT e), GpioTick])"

definition pulse_curtick :: "platform \<Rightarrow> world \<Rightarrow> u32 \<Rightarrow> u32" where
  "pulse_curtick e w pin = gpioTick_ret e (pulse_calls e w pin 0)"

subsection \<open>A concrete platform\<close>

text \<open>
  The theorems below hold for every platform. To evaluate them, \<open>rpi\<close> takes the values
  that pigpio.h and RadioLib's BuildOpt.h give the macros (neither header is among the
  sources) and a library whose SPI channel opens with handle 0, whose tick advances by
  10 with each call made, and whose pins read 1 during the first five calls and 0 from
  then on. \<open>rpi_no_spi\<close> is the same board with an SPI channel that fails to open:
  \<open>spiOpen\<close> returns a negative error code.
\<close>

definition rpi :: platform where
  "rpi = \<lparr>PI_MAX_USER_GPIO = 31, RADIOLIB_NC = 0xFFFFFFFF,
           PI_INPUT = 0, PI_OUTPUT = 1, PI_LOW = 0, PI_HIGH = 1,
           gpioRead_ret = (\<lambda>cs. if length cs < 6 then 1 else 0),
           gpioTick_ret = (\<lambda>cs. 10 * of_nat (length cs)),
           spiOpen_ret = (\<lambda>cs. 0)\<rparr>"

definition rpi_no_spi :: platform where
  "rpi_no_spi = rpi\<lparr>spiOpen_ret := (\<lambda>cs. - 73)\<rparr>"

definition fresh :: world where
  "fresh = \<lparr>hal = PiHal_new (replicate 32 False) (replicate 32 0) (replicate 32 None) 1 2000000,
            calls = []\<rparr>"

text \<open>An adapter on \<open>rpi\<close> with an interrupt registered on pin 4, for level 1.\<close>

definition armed :: PiHal where
  "armed = PiHal_new ((replicate 32 False)[4 := True]) ((replicate 32 0)[4 := 1])
             ((replicate 32 None)[4 := Some 7]) 1 2000000"

definition armed_world :: world where
  "armed_world = \<lparr>hal = armed, calls = []\<rparr>"

text \<open>
  The tick of pigpio is a \<open>uint32_t\<close> count of microseconds that wraps around to 0
  after 4294967295. \<open>rpi_wrap t0\<close> is \<open>rpi\<close> with a tick that starts at \<open>t0\<close> and,
  as on \<open>rpi\<close>, advances by 10 with each call made.
\<close>

definition rpi_wrap :: "u32 \<Rightarrow> platform" where
  "rpi_wrap t0 = rpi\<lparr>gpioTick_ret := (\<lambda>cs. t0 + 10 * of_nat (length cs))\<rparr>"

text \<open>The arrays have their declared size and the emulated interrupt of pin \<open>p\<close> is off.\<close>

definition disabled :: "platform \<Rightarrow> u32 \<Rightarrow> PiHal \<Rightarrow> bool" where
  "disabled e p h \<longleftrightarrow> hal_ok e h \<and> \<not> interruptEnabled h ! unat p"

section \<open>Basic facts\<close>

lemma hal_lib [simp]: "hal (lib c w) = hal w"
  by (simp add: lib_def)

lemma calls_lib [simp]: "calls (lib c w) = calls w @ [c]"
  by (simp add: lib_def)

lemma lib_neq [simp]: "lib c w \<noteq> w"
proof
  assume "lib c w = w"
  then have "calls (lib c w) = calls w" by simp
  then show False by simp
qed

lemma and_then_Inr [simp]: "and_then (Inr a) f = f a"
  by (simp add: and_then_def)

lemma and_then_Inl [simp]: "and_then (Inl x) f = Inl x"
  by (simp add: and_then_def)

lemma arr_read_ok:
  "0 \<le> i \<Longrightarrow> i < int (length xs) \<Longrightarrow> arr_read xs i = Inr (xs ! nat i)"
  by (simp add: arr_read_def)

lemma arr_read_neg: "i < 0 \<Longrightarrow> arr_read xs i = Inl OutOfBounds"
  by (simp add: arr_read_def)

lemma arr_write_pin:
  assumes "unat p < length xs"
  shows "arr_write xs (uint p) v = Inr (xs[unat p := v])"
proof -
  have "int (unat p) < int (length xs)" using assms by (simp only: of_nat_less_iff)
  then have lt: "uint p < int (length xs)" by simp
  have n: "nat (uint p) = unat p" by simp
  show ?thesis using lt n by (simp add: arr_write_def)
qed

lemma hal_ok_fresh: "hal_ok rpi (hal fresh)"
  by (simp add: hal_ok_def rpi_def fresh_def PiHal_new_def)

lemma hal_ok_armed: "hal_ok rpi armed"
  by (simp add: hal_ok_def rpi_def armed_def PiHal_new_def)

lemma hal_ok_armed_world: "hal_ok rpi (hal armed_world)"
  by (simp add: armed_world_def hal_ok_armed)

text \<open>On a valid pin both interrupt methods get through their three writes.\<close>

lemma attachInterrupt_valid:
  assumes "hal_ok e (hal w)" "p \<noteq> RADIOLIB_NC e" "unat p \<le> PI_MAX_USER_GPIO e"
  shows "attachInterrupt e w p cb mode =
    Inr (lib (GpioSetAlertFuncEx p True)
          (w\<lparr>hal := (hal w)\<lparr>interruptEnabled := (interruptEnabled (hal w))[unat p := True],
                             interruptModes := (interruptModes (hal w))[unat p := mode],
                             interruptCallbacks := (interruptCallbacks (hal w))[unat p := cb]\<rparr>\<rparr>))"
  using assms
  by (simp add: attachInterrupt_def hal_ok_def arr_write_pin)

lemma detachInterrupt_valid:
  assumes "hal_ok e (hal w)" "p \<noteq> RADIOLIB_NC e" "unat p \<le> PI_MAX_USER_GPIO e"
  shows "detachInterrupt e w p =
    Inr (lib (GpioSetAlertFuncEx p False)
          (w\<lparr>hal := (hal w)\<lparr>interruptEnabled := (interruptEnabled (hal w))[unat p := False],
                             interruptModes := (interruptModes (hal w))[unat p := 0],
                             interruptCallbacks := (interruptCallbacks (hal w))[unat p := None]\<rparr>\<rparr>))"
  using assms
  by (simp add: detachInterrupt_def hal_ok_def arr_write_pin)

text \<open>Methods that only forward a call leave the adapter as it is.\<close>

lemma hal_simple [simp]:
  "hal (pinMode e w pin mode) = hal w"
  "hal (digitalWrite e w pin v) = hal w"
  "hal (fst (digitalRead e w pin)) = hal w"
  "hal (delay e w t) = hal w"
  "hal (delayMicroseconds e w t) = hal w"
  "hal (fst (millis e w)) = hal w"
  "hal (fst (micros e w)) = hal w"
  "hal (spiBeginTransaction e w) = hal w"
  "hal (spiTransfer e w out len) = hal w"
  "hal (spiEndTransaction e w) = hal w"
  by (simp_all add: pinMode_def digitalWrite_def digitalRead_def delay_def
      delayMicroseconds_def millis_def micros_def spiBeginTransaction_def spiTransfer_def
      spiEndTransaction_def Let_def)

lemma hal_init: "hal (init e w) = hal (spiBegin e (lib GpioInitialise w))"
  by (simp add: init_def Let_def)

lemma hal_term: "hal (term_hal e w) = hal (spiEnd e w)"
  by (simp add: term_hal_def Let_def)

lemma spiBegin_keeps [simp]:
  "interruptEnabled (hal (spiBegin e w)) = interruptEnabled (hal w)"
  "interruptModes (hal (spiBegin e w)) = interruptModes (hal w)"
  "interruptCallbacks (hal (spiBegin e w)) = interruptCallbacks (hal w)"
  "spiChannel (hal (spiBegin e w)) = spiChannel (hal w)"
  "spiSpeed (hal (spiBegin e w)) = spiSpeed (hal w)"
  by (simp_all add: spiBegin_def Let_def)

lemma spiEnd_keeps [simp]:
  "interruptEnabled (hal (spiEnd e w)) = interruptEnabled (hal w)"
  "interruptModes (hal (spiEnd e w)) = interruptModes (hal w)"
  "interruptCallbacks (hal (spiEnd e w)) = interruptCallbacks (hal w)"
  "spiChannel (hal (spiEnd e w)) = spiChannel (hal w)"
  "spiSpeed (hal (spiEnd e w)) = spiSpeed (hal w)"
  by (simp_all add: spiEnd_def Let_def)

lemma attachInterrupt_spi:
  "attachInterrupt e w n cb m = Inr w' \<Longrightarrow>
   spiChannel (hal w') = spiChannel (hal w) \<and> spiSpeed (hal w') = spiSpeed (hal w) \<and>
   spiHandle (hal w') = spiHandle (hal w)"
  by (auto simp add: attachInterrupt_def and_then_def arr_write_def split: if_splits)

lemma detachInterrupt_spi:
  "detachInterrupt e w n = Inr w' \<Longrightarrow>
   spiChannel (hal w') = spiChannel (hal w) \<and> spiSpeed (hal w') = spiSpeed (hal w) \<and>
   spiHandle (hal w') = spiHandle (hal w)"
  by (auto simp add: detachInterrupt_def and_then_def arr_write_def split: if_splits)

subsection \<open>The loop of pulseIn\<close>

text \<open>Whatever the loop returns, it returns with the adapter it started with.\<close>

lemma pulseIn_loop_hal:
  "pulseIn_loop e pin state timeout start curtick w = Some y \<Longrightarrow> hal (fst y) = hal w"
proof (rule pulseIn_loop.raw_induct
    [where P = "\<lambda>e pin state timeout start curtick w y. hal (fst y) = hal w"])
  show "pulseIn_loop e pin state timeout start curtick w = Some y \<Longrightarrow>
        pulseIn_loop e pin state timeout start curtick w = Some y" .
next
  fix loop :: "platform \<Rightarrow> u32 \<Rightarrow> u32 \<Rightarrow> 'a word \<Rightarrow> u32 \<Rightarrow> u32 \<Rightarrow> world \<Rightarrow> (world \<times> 'a word) option"
  fix e pin state timeout start curtick w y
  assume IH: "\<And>e pin state timeout start curtick w y.
      loop e pin state timeout start curtick w = Some y \<Longrightarrow> hal (fst y) = hal w"
  assume body: "(case digitalRead e w pin of
      (w1, r) \<Rightarrow>
        if r = state
        then case micros e w1 of
             (w2, t) \<Rightarrow>
               if timeout < t - ucast curtick then Some (w2, 0)
               else loop e pin state timeout start curtick w2
        else case micros e w1 of (w2, t) \<Rightarrow> Some (w2, t - ucast start)) = Some y"
  then show "hal (fst y) = hal w"
    by (auto simp add: digitalRead_def micros_def Let_def split: if_splits dest!: IH)
qed

lemma pulseIn_hal:
  "pulseIn e w pin state timeout = Some y \<Longrightarrow> hal (fst y) = hal w"
  by (auto simp add: pulseIn_def pinMode_def micros_def Let_def split: if_splits
      dest!: pulseIn_loop_hal)

text \<open>One round of the loop, in its three outcomes.\<close>

lemma loop_round:
  fixes timeout :: "'t::len word"
  assumes "pin \<noteq> RADIOLIB_NC e"
    and "gpioRead_ret e (calls w @ [GpioRead pin]) = state"
    and "\<not> timeout < ucast (gpioTick_ret e (calls w @ [GpioRead pin, GpioTick])) - ucast curtick"
  shows "pulseIn_loop e pin state timeout start curtick w =
         pulseIn_loop e pin state timeout start curtick (w\<lparr>calls := calls w @ [GpioRead pin, GpioTick]\<rparr>)"
  using assms
  by (subst pulseIn_loop.simps) (simp add: digitalRead_def micros_def Let_def lib_def)

lemma loop_last_timeout:
  fixes timeout :: "'t::len word"
  assumes "pin \<noteq> RADIOLIB_NC e"
    and "gpioRead_ret e (calls w @ [GpioRead pin]) = state"
    and "timeout < ucast (gpioTick_ret e (calls w @ [GpioRead pin, GpioTick])) - ucast curtick"
  shows "pulseIn_loop e pin state timeout start curtick w =
         Some (w\<lparr>calls := calls w @ [GpioRead pin, GpioTick]\<rparr>, 0)"
  using assms
  by (subst pulseIn_loop.simps) (simp add: digitalRead_def micros_def Let_def lib_def)

lemma loop_last_edge:
  fixes timeout :: "'t::len word"
  assumes "pin \<noteq> RADIOLIB_NC e"
    and "gpioRead_ret e (calls w @ [GpioRead pin]) \<noteq> state"
  shows "pulseIn_loop e pin state timeout start curtick w =
         Some (w\<lparr>calls := calls w @ [GpioRead pin, GpioTick]\<rparr>,
               ucast (gpioTick_ret e (calls w @ [GpioRead pin, GpioTick])) - ucast start)"
  using assms
  by (subst pulseIn_loop.simps) (simp add: digitalRead_def micros_def Let_def lib_def)

lemma pulse_calls_Suc:
  "pulse_calls e w pin (Suc i) = pulse_calls e w pin i @ [GpioRead pin, GpioTick]"
proof -
  have "concat (replicate (Suc i) xs) = concat (replicate i xs) @ xs" for xs :: "call list"
    by (induction i) simp_all
  then show ?thesis by (simp add: pulse_calls_def)
qed

text \<open>Rounds in which the pin shows \<open>state\<close> and the time is not up only extend the log.\<close>

lemma loop_rounds:
  fixes timeout :: "'t::len word"
  assumes nc: "pin \<noteq> RADIOLIB_NC e"
    and rounds: "\<forall>i<n. pulse_level e w pin i = state \<and>
           (ucast (pulse_tick e w pin i) :: 't word) - ucast curtick \<le> timeout"
  shows "pulseIn_loop e pin state timeout start curtick (w\<lparr>calls := pulse_calls e w pin 0\<rparr>) =
         pulseIn_loop e pin state timeout start curtick (w\<lparr>calls := pulse_calls e w pin n\<rparr>)"
  using rounds
proof (induction n)
  case 0
  show ?case by simp
next
  case (Suc n)
  then have IH: "pulseIn_loop e pin state timeout start curtick (w\<lparr>calls := pulse_calls e w pin 0\<rparr>) =
         pulseIn_loop e pin state timeout start curtick (w\<lparr>calls := pulse_calls e w pin n\<rparr>)"
    by simp
  from Suc.prems have lv: "pulse_level e w pin n = state"
    and tm: "\<not> timeout < (ucast (pulse_tick e w pin n) :: 't word) - ucast curtick"
    by (simp_all add: not_less)
  have "pulseIn_loop e pin state timeout start curtick (w\<lparr>calls := pulse_calls e w pin n\<rparr>) =
        pulseIn_loop e pin state timeout start curtick (w\<lparr>calls := pulse_calls e w pin (Suc n)\<rparr>)"
    using loop_round [where pin = pin and e = e and w = "w\<lparr>calls := pulse_calls e w pin n\<rparr>"
        and state = state and timeout = timeout and curtick = curtick and start = start]
      nc lv tm
    by (simp add: pulse_level_def pulse_tick_def pulse_calls_Suc)
  with IH show ?case by simp
qed

text \<open>
  \<open>unsigned long\<close> has at least 32 bits, so the tick survives the way through
  \<open>RadioLibTime_t\<close> into \<open>start\<close> and \<open>curtick\<close>.
\<close>

lemma pulseIn_connected:
  fixes timeout :: "'t::len word"
  assumes len: "32 \<le> LENGTH('t)" and nc: "pin \<noteq> RADIOLIB_NC e"
  shows "pulseIn e w pin state timeout =
         pulseIn_loop e pin state timeout (pulse_start e w pin) (pulse_curtick e w pin)
           (w\<lparr>calls := pulse_calls e w pin 0\<rparr>)"
proof -
  have up: "is_up (ucast :: 32 word \<Rightarrow> 't word)"
    using len by (simp add: is_up)
  have id: "\<And>x :: 32 word. (ucast (ucast x :: 't word) :: 32 word) = x"
    using up by (rule ucast_up_ucast_id)
  show ?thesis
    using nc
    by (simp add: pulseIn_def pinMode_def micros_def Let_def lib_def id pulse_start_def
        pulse_curtick_def pulse_calls_def)
qed

lemma elapsed_no_wrap:
  fixes a b :: u32
  assumes len: "32 \<le> LENGTH('t::len)" and le: "b \<le> a"
  shows "unat ((ucast a :: 't word) - ucast b) = unat a - unat b"
proof -
  have up: "unat (ucast x :: 't word) = unat x" for x :: u32
  proof -
    have a: "unat x < 2 ^ LENGTH(32)" by (rule unsigned_less)
    have b: "(2 :: nat) ^ LENGTH(32) \<le> 2 ^ LENGTH('t)"
      by (rule power_increasing) (use len in simp_all)
    from a b have "unat x < 2 ^ LENGTH('t)" by (rule less_le_trans)
    then have "take_bit LENGTH('t) (unat x) = unat x" by (rule take_bit_nat_eq_self)
    then show ?thesis by (simp add: unsigned_ucast_eq)
  qed
  from le have "unat b \<le> unat a" by (simp add: word_le_nat_alt)
  then have "(ucast b :: 't word) \<le> ucast a" by (simp add: word_le_nat_alt up)
  then have "unat ((ucast a :: 't word) - ucast b) = unat (ucast a :: 't word) - unat (ucast b :: 't word)"
    by (rule unat_sub)
  then show ?thesis by (simp add: up)
qed

section \<open>The alert handler\<close>

text \<open>
  Claim C1. Whenever \<open>pigpioAlertHandler\<close> is invoked with an event pin and an
  observed level, it invokes the callback stored for that pin if and only if the event
  number is at most \<open>PI_MAX_USER_GPIO\<close>, the userdata pointer is not null, the
  interrupt-enabled flag of that pin is true, the registered mode of that pin equals the
  observed level, and the stored callback pointer of that pin is not null.

  The pin of an event is the element of the arrays that \<open>event\<close> indexes, so an event
  that has a pin is not negative; for such an event the handler also stays inside the
  arrays. The adapter passed as userdata has arrays of the declared size.
\<close>

theorem alert_handler_dispatch:
  assumes "\<forall>h. userdata = Some h \<longrightarrow> hal_ok e h"
  shows "(pigpioAlertHandler e event level tick userdata = Inr (Invoke f) \<longleftrightarrow>
           sint event \<le> int (PI_MAX_USER_GPIO e) \<and>
           (\<exists>h. userdata = Some h \<and> 0 \<le> sint event \<and>
                interruptEnabled h ! nat (sint event) \<and>
                interruptModes h ! nat (sint event) = level \<and>
                interruptCallbacks h ! nat (sint event) = Some f)) \<and>
         (0 \<le> sint event \<longrightarrow> pigpioAlertHandler e event level tick userdata \<noteq> Inl OutOfBounds)"
proof (cases userdata)
  case None
  then show ?thesis by (simp add: pigpioAlertHandler_def)
next
  case (Some h)
  with assms have ok: "hal_ok e h" by simp
  show ?thesis
  proof (cases "0 \<le> sint event \<and> sint event \<le> int (PI_MAX_USER_GPIO e)")
    case True
    then have "arr_read (interruptEnabled h) (sint event) = Inr (interruptEnabled h ! nat (sint event))"
      "arr_read (interruptModes h) (sint event) = Inr (interruptModes h ! nat (sint event))"
      "arr_read (interruptCallbacks h) (sint event) = Inr (interruptCallbacks h ! nat (sint event))"
      using ok by (simp_all add: hal_ok_def arr_read_ok)
    then show ?thesis using True Some
      by (simp add: pigpioAlertHandler_def split: option.splits)
  next
    case False
    then show ?thesis using Some
      by (auto simp add: pigpioAlertHandler_def arr_read_neg)
  qed
qed

text \<open>On \<open>rpi\<close>, an event on pin 4 at level 1 calls function 7 of the armed adapter.\<close>

theorem alert_handler_dispatch_witness:
  "hal_ok rpi armed \<and>
   pigpioAlertHandler rpi 4 1 0 (Some armed) = Inr (Invoke 7)"
proof -
  have h: "\<forall>h. Some armed = Some h \<longrightarrow> hal_ok rpi h"
    using hal_ok_armed by simp
  have "interruptEnabled armed ! 4 \<and> interruptModes armed ! 4 = 1 \<and>
        interruptCallbacks armed ! 4 = Some 7"
    by (simp add: armed_def PiHal_new_def)
  then show ?thesis
    using hal_ok_armed
      alert_handler_dispatch [OF h, where event = 4 and level = 1 and tick = 0 and f = 7]
    by (simp add: rpi_def)
qed

text \<open>
  Claim C4. For every argument value, every read or write of the three interrupt arrays
  by \<open>attachInterrupt\<close>, \<open>detachInterrupt\<close> and \<open>pigpioAlertHandler\<close> uses an index
  between 0 and \<open>PI_MAX_USER_GPIO\<close>.

  The handler's guard tests \<open>event > PI_MAX_USER_GPIO\<close> only. \<open>event\<close> is an \<open>int\<close>:
  with \<open>event = -1\<close> and a userdata pointer that is not null the guard lets the event
  through, and the first read, \<open>interruptEnabled[-1]\<close>, is outside the array.
\<close>

theorem alert_handler_negative_event:
  "sint (- 1 :: c_int) \<le> int (PI_MAX_USER_GPIO rpi) \<and>
   pigpioAlertHandler rpi (- 1) 0 0 (Some (hal fresh)) = Inl OutOfBounds"
  by (simp add: pigpioAlertHandler_def rpi_def arr_read_def)

section \<open>Pins that are out of range or not connected\<close>

text \<open>
  Claim C2, as stated: for every pin number above \<open>PI_MAX_USER_GPIO\<close>, each of
  \<open>pinMode\<close>, \<open>digitalWrite\<close>, \<open>digitalRead\<close>, \<open>attachInterrupt\<close> and
  \<open>detachInterrupt\<close> returns without a change of state and without a call into the GPIO
  library. It fails for the first three, which test \<open>RADIOLIB_NC\<close> only: on \<open>rpi\<close>,
  where the largest pin is 31, each of them passes pin 32 on to pigpio.
\<close>

theorem pinMode_forwards_pin_32:
  "PI_MAX_USER_GPIO rpi < unat (32 :: u32) \<and>
   calls fresh = [] \<and>
   calls (pinMode rpi fresh 32 0) = [GpioSetMode 32 0] \<and>
   calls (digitalWrite rpi fresh 32 1) = [GpioWrite 32 1] \<and>
   calls (fst (digitalRead rpi fresh 32)) = [GpioRead 32]"
  by (simp add: rpi_def fresh_def pinMode_def digitalWrite_def digitalRead_def lib_def Let_def)

text \<open>
  Claim C2, amended: for every pin number above \<open>PI_MAX_USER_GPIO\<close>,
  \<open>attachInterrupt\<close> and \<open>detachInterrupt\<close> return without a change of state and
  without a call into the GPIO library. \<open>pinMode\<close>, \<open>digitalWrite\<close> and \<open>digitalRead\<close>
  never change the adapter's state, for any pin, and they ignore the call only when the
  pin is \<open>RADIOLIB_NC\<close>; any other pin, also one above \<open>PI_MAX_USER_GPIO\<close>, is passed
  on to the library as it is: to \<open>gpioSetMode\<close> with the mode, to \<open>gpioWrite\<close> with the
  value, to \<open>gpioRead\<close>, whose answer \<open>digitalRead\<close> returns.
\<close>

theorem out_of_range_pin:
  "(PI_MAX_USER_GPIO e < unat pin \<longrightarrow>
      attachInterrupt e w pin cb mode = Inr w \<and> detachInterrupt e w pin = Inr w) \<and>
   hal (pinMode e w pin mode) = hal w \<and>
   hal (digitalWrite e w pin v) = hal w \<and>
   hal (fst (digitalRead e w pin)) = hal w \<and>
   pinMode e w (RADIOLIB_NC e) mode = w \<and>
   digitalWrite e w (RADIOLIB_NC e) v = w \<and>
   digitalRead e w (RADIOLIB_NC e) = (w, 0) \<and>
   (pin \<noteq> RADIOLIB_NC e \<longrightarrow>
      pinMode e w pin mode = lib (GpioSetMode pin mode) w \<and>
      digitalWrite e w pin v = lib (GpioWrite pin v) w \<and>
      digitalRead e w pin = (lib (GpioRead pin) w, gpioRead_ret e (calls w @ [GpioRead pin])))"
  by (simp add: attachInterrupt_def detachInterrupt_def pinMode_def digitalWrite_def
      digitalRead_def Let_def)

text \<open>On \<open>rpi\<close>, pin 32 is above the range and is not \<open>RADIOLIB_NC\<close>.\<close>

theorem out_of_range_pin_witness:
  "PI_MAX_USER_GPIO rpi < unat (32 :: u32) \<and> (32 :: u32) \<noteq> RADIOLIB_NC rpi \<and>
   attachInterrupt rpi fresh 32 (Some 7) 0 = Inr fresh \<and>
   detachInterrupt rpi fresh 32 = Inr fresh \<and>
   pinMode rpi fresh 32 0 = lib (GpioSetMode 32 0) fresh \<and>
   digitalWrite rpi fresh 32 1 = lib (GpioWrite 32 1) fresh \<and>
   digitalRead rpi fresh 32 = (lib (GpioRead 32) fresh, 1)"
proof -
  have h: "PI_MAX_USER_GPIO rpi < unat (32 :: u32)" by (simp add: rpi_def)
  have nc: "(32 :: u32) \<noteq> RADIOLIB_NC rpi" by (simp add: rpi_def)
  have r: "gpioRead_ret rpi (calls fresh @ [GpioRead 32]) = 1" by (simp add: rpi_def fresh_def)
  show ?thesis
    using h nc r
      out_of_range_pin [where e = rpi and pin = 32 and w = fresh and cb = "Some 7"
        and mode = 0 and v = 1]
    by simp
qed

text \<open>
  Claim C3. For the pin value \<open>RADIOLIB_NC\<close>, each of \<open>pinMode\<close>, \<open>digitalWrite\<close>,
  \<open>digitalRead\<close>, \<open>attachInterrupt\<close>, \<open>detachInterrupt\<close> and \<open>pulseIn\<close> returns at
  once, with no call into the GPIO library and no change of the adapter's state;
  \<open>digitalRead\<close> and \<open>pulseIn\<close> then return 0.
\<close>

theorem nc_pin_is_ignored:
  "pinMode e w (RADIOLIB_NC e) mode = w \<and>
   digitalWrite e w (RADIOLIB_NC e) v = w \<and>
   digitalRead e w (RADIOLIB_NC e) = (w, 0) \<and>
   attachInterrupt e w (RADIOLIB_NC e) cb mode = Inr w \<and>
   detachInterrupt e w (RADIOLIB_NC e) = Inr w \<and>
   pulseIn e w (RADIOLIB_NC e) state (timeout :: 't::len word) = Some (w, 0)"
  by (simp add: pinMode_def digitalWrite_def digitalRead_def attachInterrupt_def
      detachInterrupt_def pulseIn_def)

theorem nc_pin_is_ignored_witness:
  "pinMode rpi fresh 0xFFFFFFFF 0 = fresh \<and>
   digitalRead rpi fresh 0xFFFFFFFF = (fresh, 0) \<and>
   pulseIn rpi fresh 0xFFFFFFFF 1 (100 :: 32 word) = Some (fresh, 0)"
proof -
  have nc: "RADIOLIB_NC rpi = 0xFFFFFFFF" by (simp add: rpi_def)
  show ?thesis
    using nc_pin_is_ignored [where e = rpi and w = fresh and mode = 0 and state = 1
        and timeout = "100 :: 32 word"]
    by (simp add: nc)
qed

section \<open>Registering and clearing an interrupt\<close>

text \<open>
  Claim C5. For every valid pin \<open>p\<close> (not \<open>RADIOLIB_NC\<close>, at most
  \<open>PI_MAX_USER_GPIO\<close>), \<open>attachInterrupt(p, cb, mode)\<close> sets the three arrays at index
  \<open>p\<close> to true, \<open>mode\<close> and \<open>cb\<close>, and \<open>detachInterrupt(p)\<close> sets them to false, 0
  and \<open>NULL\<close>; both leave the entries of every other pin and the SPI state
  (\<open>_spiChannel\<close>, \<open>_spiSpeed\<close>, \<open>_spiHandle\<close>) unchanged.
\<close>

theorem attach_detach_set_and_clear:
  assumes "hal_ok e (hal w)" "p \<noteq> RADIOLIB_NC e" "unat p \<le> PI_MAX_USER_GPIO e"
  shows "\<exists>wa wd.
    attachInterrupt e w p cb mode = Inr wa \<and> detachInterrupt e w p = Inr wd \<and>
    interruptEnabled (hal wa) ! unat p = True \<and>
    interruptModes (hal wa) ! unat p = mode \<and>
    interruptCallbacks (hal wa) ! unat p = cb \<and>
    interruptEnabled (hal wd) ! unat p = False \<and>
    interruptModes (hal wd) ! unat p = 0 \<and>
    interruptCallbacks (hal wd) ! unat p = None \<and>
    (\<forall>q. q \<noteq> unat p \<longrightarrow>
       interruptEnabled (hal wa) ! q = interruptEnabled (hal w) ! q \<and>
       interruptModes (hal wa) ! q = interruptModes (hal w) ! q \<and>
       interruptCallbacks (hal wa) ! q = interruptCallbacks (hal w) ! q \<and>
       interruptEnabled (hal wd) ! q = interruptEnabled (hal w) ! q \<and>
       interruptModes (hal wd) ! q = interruptModes (hal w) ! q \<and>
       interruptCallbacks (hal wd) ! q = interruptCallbacks (hal w) ! q) \<and>
    hal_ok e (hal wa) \<and> hal_ok e (hal wd) \<and>
    spiChannel (hal wa) = spiChannel (hal w) \<and> spiSpeed (hal wa) = spiSpeed (hal w) \<and>
    spiHandle (hal wa) = spiHandle (hal w) \<and>
    spiChannel (hal wd) = spiChannel (hal w) \<and> spiSpeed (hal wd) = spiSpeed (hal w) \<and>
    spiHandle (hal wd) = spiHandle (hal w)"
proof -
  have len: "unat p < length (interruptEnabled (hal w))"
    "unat p < length (interruptModes (hal w))"
    "unat p < length (interruptCallbacks (hal w))"
    using assms by (simp_all add: hal_ok_def)
  show ?thesis
    unfolding attachInterrupt_valid [OF assms] detachInterrupt_valid [OF assms]
    using len assms(1) by (simp add: hal_ok_def)
qed

text \<open>
  On \<open>rpi\<close>, at the adapter armed on pin 4 (mode 1, function 7): attaching function 8
  for mode 2 replaces the entry, detaching clears it.
\<close>

theorem attach_detach_set_and_clear_witness:
  "hal_ok rpi (hal armed_world) \<and> (4 :: u32) \<noteq> RADIOLIB_NC rpi \<and>
   unat (4 :: u32) \<le> PI_MAX_USER_GPIO rpi \<and>
   interruptEnabled (hal armed_world) ! 4 \<and>
   interruptModes (hal armed_world) ! 4 = 1 \<and>
   interruptCallbacks (hal armed_world) ! 4 = Some 7 \<and>
   (\<exists>wa wd. attachInterrupt rpi armed_world 4 (Some 8) 2 = Inr wa \<and>
      detachInterrupt rpi armed_world 4 = Inr wd \<and>
      interruptEnabled (hal wa) ! 4 \<and> interruptModes (hal wa) ! 4 = 2 \<and>
      interruptCallbacks (hal wa) ! 4 = Some 8 \<and>
      \<not> interruptEnabled (hal wd) ! 4 \<and> interruptModes (hal wd) ! 4 = 0 \<and>
      interruptCallbacks (hal wd) ! 4 = None)"
proof -
  have nc: "(4 :: u32) \<noteq> RADIOLIB_NC rpi" by (simp add: rpi_def)
  have le: "unat (4 :: u32) \<le> PI_MAX_USER_GPIO rpi" by (simp add: rpi_def)
  have before: "interruptEnabled (hal armed_world) ! 4 \<and>
     interruptModes (hal armed_world) ! 4 = 1 \<and>
     interruptCallbacks (hal armed_world) ! 4 = Some 7"
    by (simp add: armed_world_def armed_def PiHal_new_def)
  from attach_detach_set_and_clear [OF hal_ok_armed_world nc le, of "Some 8" 2]
  show ?thesis using hal_ok_armed_world nc le before by auto
qed

section \<open>SPI state\<close>

text \<open>
  Claim C6. The two SPI configuration scalars are fixed at construction: no operation
  of the adapter changes \<open>_spiChannel\<close> or \<open>_spiSpeed\<close> after the constructor; the
  only mutable SPI state is \<open>_spiHandle\<close>, and it is changed only by \<open>spiBegin\<close> and
  \<open>spiEnd\<close>.

  For every method \<open>x\<close> that returns: the two scalars are the ones the constructor
  stored, and when the handle differs afterwards, \<open>x\<close> is \<open>spiBegin\<close> or \<open>spiEnd\<close>,
  or it is \<open>init\<close> or \<open>term\<close>, whose handle is the one that the call of \<open>spiBegin\<close>
  or \<open>spiEnd\<close> in their body leaves.
\<close>

theorem spi_configuration_fixed:
  fixes x :: "('t::len word) op"
  assumes "exec e x w = Some (Inr w')"
  shows "spiChannel (PiHal_new en md cb ch sp) = ch \<and>
         spiSpeed (PiHal_new en md cb ch sp) = sp \<and>
         spiChannel (hal w') = spiChannel (hal w) \<and>
         spiSpeed (hal w') = spiSpeed (hal w) \<and>
         (spiHandle (hal w') \<noteq> spiHandle (hal w) \<longrightarrow>
            x = SpiBegin \<or> x = SpiEnd \<or>
            x = Init \<and> hal w' = hal (spiBegin e (lib GpioInitialise w)) \<or>
            x = Term \<and> hal w' = hal (spiEnd e w))"
proof -
  have new: "spiChannel (PiHal_new en md cb ch sp) = ch \<and> spiSpeed (PiHal_new en md cb ch sp) = sp"
    by (simp add: PiHal_new_def)
  have rest: "spiChannel (hal w') = spiChannel (hal w) \<and>
         spiSpeed (hal w') = spiSpeed (hal w) \<and>
         (spiHandle (hal w') \<noteq> spiHandle (hal w) \<longrightarrow>
            x = SpiBegin \<or> x = SpiEnd \<or>
            x = Init \<and> hal w' = hal (spiBegin e (lib GpioInitialise w)) \<or>
            x = Term \<and> hal w' = hal (spiEnd e w))"
  proof (cases x)
    case Init
    with assms have "w' = init e w" by simp
    then show ?thesis using Init by (simp add: hal_init)
  next
    case Term
    with assms have "w' = term_hal e w" by simp
    then show ?thesis using Term by (simp add: hal_term)
  next
    case (AttachInterrupt n f m)
    with assms show ?thesis using attachInterrupt_spi [of e w n f m w'] by simp
  next
    case (DetachInterrupt n)
    with assms show ?thesis using detachInterrupt_spi [of e w n w'] by simp
  next
    case (PulseIn pin state timeout)
    with assms obtain y where "pulseIn e w pin state timeout = Some y" "w' = fst y"
      by auto
    then show ?thesis using pulseIn_hal [of e w pin state timeout y] by simp
  next
    case SpiBegin
    with assms have "w' = spiBegin e w" by simp
    then show ?thesis using SpiBegin by simp
  next
    case SpiEnd
    with assms have "w' = spiEnd e w" by simp
    then show ?thesis using SpiEnd by simp
  qed (use assms in auto)
  from new rest show ?thesis by simp
qed

theorem spi_configuration_fixed_witness:
  "exec rpi (SpiBegin :: 32 word op) fresh = Some (Inr (spiBegin rpi fresh)) \<and>
   spiChannel (hal (spiBegin rpi fresh)) = spiChannel (hal fresh) \<and>
   spiSpeed (hal (spiBegin rpi fresh)) = spiSpeed (hal fresh) \<and>
   spiHandle (hal (spiBegin rpi fresh)) \<noteq> spiHandle (hal fresh)"
proof -
  have x: "exec rpi (SpiBegin :: 32 word op) fresh = Some (Inr (spiBegin rpi fresh))" by simp
  have "spiHandle (hal (spiBegin rpi fresh)) \<noteq> spiHandle (hal fresh)"
    by (simp add: spiBegin_def fresh_def rpi_def PiHal_new_def lib_def Let_def)
  then show ?thesis
    using x spi_configuration_fixed [OF x] by simp
qed

text \<open>
  Claim C8, as stated: \<open>spiBegin\<close> and \<open>spiEnd\<close> are idempotent; after any call of
  \<open>spiEnd\<close> the handle is \<open>-1\<close>, and for every state \<open>spiBegin\<close> followed by
  \<open>spiBegin\<close> equals \<open>spiBegin\<close>. Both fail when \<open>spiOpen\<close> fails: the negative error
  code becomes the handle, \<open>spiEnd\<close> leaves it there, and a second \<open>spiBegin\<close> calls
  \<open>spiOpen\<close> a second time.
\<close>

theorem spi_open_failure:
  "spiHandle (hal fresh) = - 1 \<and>
   spiHandle (hal (spiEnd rpi_no_spi (spiBegin rpi_no_spi fresh))) = - 73 \<and>
   calls (spiBegin rpi_no_spi fresh) = [SpiOpen 1 2000000 0] \<and>
   calls (spiBegin rpi_no_spi (spiBegin rpi_no_spi fresh)) =
     [SpiOpen 1 2000000 0, SpiOpen 1 2000000 0]"
  by (simp add: spiBegin_def spiEnd_def fresh_def rpi_no_spi_def rpi_def PiHal_new_def lib_def Let_def)

text \<open>
  Claim C8, amended: if a session is open (\<open>_spiHandle >= 0\<close>), \<open>spiBegin\<close> changes
  nothing and opens no second session; if none is open (\<open>_spiHandle < 0\<close>), \<open>spiEnd\<close>
  does nothing. After \<open>spiEnd\<close> the handle is negative, and it is \<open>-1\<close> when a
  session was open or the handle was \<open>-1\<close> before. For every state \<open>spiEnd\<close> followed
  by \<open>spiEnd\<close> equals \<open>spiEnd\<close>; \<open>spiBegin\<close> followed by \<open>spiBegin\<close> equals
  \<open>spiBegin\<close> whenever the first one ends with an open session.
\<close>

theorem spi_begin_end_repeated:
  "(0 \<le> sint (spiHandle (hal w)) \<longrightarrow> spiBegin e w = w) \<and>
   (sint (spiHandle (hal w)) < 0 \<longrightarrow> spiEnd e w = w) \<and>
   sint (spiHandle (hal (spiEnd e w))) < 0 \<and>
   (0 \<le> sint (spiHandle (hal w)) \<or> spiHandle (hal w) = - 1 \<longrightarrow> spiHandle (hal (spiEnd e w)) = - 1) \<and>
   spiEnd e (spiEnd e w) = spiEnd e w \<and>
   (0 \<le> sint (spiHandle (hal (spiBegin e w))) \<longrightarrow> spiBegin e (spiBegin e w) = spiBegin e w)"
  by (simp add: spiBegin_def spiEnd_def Let_def)

theorem spi_begin_end_repeated_witness:
  "0 \<le> sint (spiHandle (hal (spiBegin rpi fresh))) \<and>
   sint (spiHandle (hal fresh)) < 0 \<and>
   spiBegin rpi (spiBegin rpi fresh) = spiBegin rpi fresh \<and>
   spiEnd rpi fresh = fresh \<and>
   spiHandle (hal (spiEnd rpi (spiBegin rpi fresh))) = - 1"
proof -
  have a: "0 \<le> sint (spiHandle (hal (spiBegin rpi fresh)))"
    by (simp add: spiBegin_def fresh_def rpi_def PiHal_new_def lib_def Let_def)
  have b: "sint (spiHandle (hal fresh)) < 0"
    by (simp add: fresh_def PiHal_new_def)
  show ?thesis
    using a b spi_begin_end_repeated [of "spiBegin rpi fresh" rpi]
      spi_begin_end_repeated [of fresh rpi]
    by simp
qed

section \<open>A detached pin\<close>

lemma disabled_cong:
  "interruptEnabled h' = interruptEnabled h \<Longrightarrow> interruptModes h' = interruptModes h \<Longrightarrow>
   interruptCallbacks h' = interruptCallbacks h \<Longrightarrow> disabled e p h \<Longrightarrow> disabled e p h'"
  by (simp add: disabled_def hal_ok_def)

text \<open>Every method but the two interrupt methods returns with the arrays it found.\<close>

lemma exec_other_arrays:
  fixes x :: "('t::len word) op"
  assumes r: "exec e x w = Some r"
    and na: "\<forall>n f m. x \<noteq> AttachInterrupt n f m"
    and nd: "\<forall>n. x \<noteq> DetachInterrupt n"
  shows "\<exists>w'. r = Inr w' \<and> interruptEnabled (hal w') = interruptEnabled (hal w) \<and>
           interruptModes (hal w') = interruptModes (hal w) \<and>
           interruptCallbacks (hal w') = interruptCallbacks (hal w)"
proof (cases x)
  case (AttachInterrupt n f m)
  with na show ?thesis by simp
next
  case (DetachInterrupt n)
  with nd show ?thesis by simp
next
  case (PulseIn pin state timeout)
  with r obtain y where "pulseIn e w pin state timeout = Some y" "r = Inr (fst y)"
    by auto
  then show ?thesis using pulseIn_hal [of e w pin state timeout y] by simp
next
  case Init
  with r have "r = Inr (init e w)" by simp
  then show ?thesis by (simp add: hal_init)
next
  case Term
  with r have "r = Inr (term_hal e w)" by simp
  then show ?thesis by (simp add: hal_term)
next
  case (PinMode pin mode)
  with r have "r = Inr (pinMode e w pin mode)" by simp
  then show ?thesis by simp
next
  case (DigitalWrite pin v)
  with r have "r = Inr (digitalWrite e w pin v)" by simp
  then show ?thesis by simp
next
  case (DigitalRead pin)
  with r have "r = Inr (fst (digitalRead e w pin))" by simp
  then show ?thesis by simp
next
  case (Delay t)
  with r have "r = Inr (delay e w t)" by simp
  then show ?thesis by simp
next
  case (DelayMicroseconds t)
  with r have "r = Inr (delayMicroseconds e w t)" by simp
  then show ?thesis by simp
next
  case Millis
  with r have "r = Inr (fst (millis e w :: world \<times> 't word))" by simp
  then show ?thesis by simp
next
  case Micros
  with r have "r = Inr (fst (micros e w :: world \<times> 't word))" by simp
  then show ?thesis by simp
next
  case SpiBegin
  with r have "r = Inr (spiBegin e w)" by simp
  then show ?thesis by simp
next
  case SpiBeginTransaction
  with r have "r = Inr (spiBeginTransaction e w)" by simp
  then show ?thesis by simp
next
  case (SpiTransfer out len)
  with r have "r = Inr (spiTransfer e w out len)" by simp
  then show ?thesis by simp
next
  case SpiEndTransaction
  with r have "r = Inr (spiEndTransaction e w)" by simp
  then show ?thesis by simp
next
  case SpiEnd
  with r have "r = Inr (spiEnd e w)" by simp
  then show ?thesis by simp
qed

text \<open>A method other than \<open>attachInterrupt\<close> on \<open>p\<close> leaves the interrupt of \<open>p\<close> off.\<close>

lemma exec_keeps_disabled:
  fixes x :: "('t::len word) op"
  assumes d: "disabled e p (hal w)"
    and p: "unat p \<le> PI_MAX_USER_GPIO e"
    and x: "\<forall>cb mode. x \<noteq> AttachInterrupt p cb mode"
    and r: "exec e x w = Some r"
  shows "\<exists>w'. r = Inr w' \<and> disabled e p (hal w')"
proof -
  from d have ok: "hal_ok e (hal w)" by (simp add: disabled_def)
  consider (attach) n f m where "x = AttachInterrupt n f m"
    | (detach) n where "x = DetachInterrupt n"
    | (other) "\<forall>n f m. x \<noteq> AttachInterrupt n f m" "\<forall>n. x \<noteq> DetachInterrupt n"
    by blast
  then show ?thesis
  proof cases
    case attach
    with x have "n \<noteq> p" by auto
    then have un: "unat n \<noteq> unat p" by (simp add: word_unat_eq_iff)
    from r attach have ra: "r = attachInterrupt e w n f m" by simp
    show ?thesis
    proof (cases "n = RADIOLIB_NC e \<or> PI_MAX_USER_GPIO e < unat n")
      case True
      then have "attachInterrupt e w n f m = Inr w" by (auto simp add: attachInterrupt_def)
      with ra d show ?thesis by simp
    next
      case False
      then have v: "n \<noteq> RADIOLIB_NC e" "unat n \<le> PI_MAX_USER_GPIO e" by auto
      show ?thesis
        unfolding ra attachInterrupt_valid [OF ok v]
        using d un by (simp add: disabled_def hal_ok_def)
    qed
  next
    case detach
    from r detach have rd: "r = detachInterrupt e w n" by simp
    show ?thesis
    proof (cases "n = RADIOLIB_NC e \<or> PI_MAX_USER_GPIO e < unat n")
      case True
      then have "detachInterrupt e w n = Inr w" by (auto simp add: detachInterrupt_def)
      with rd d show ?thesis by simp
    next
      case False
      then have v: "n \<noteq> RADIOLIB_NC e" "unat n \<le> PI_MAX_USER_GPIO e" by auto
      show ?thesis
        unfolding rd detachInterrupt_valid [OF ok v]
        using d p by (cases "unat n = unat p") (simp_all add: disabled_def hal_ok_def)
    qed
  next
    case other
    from exec_other_arrays [OF r other] obtain w' where
      "r = Inr w'" "interruptEnabled (hal w') = interruptEnabled (hal w)"
      "interruptModes (hal w') = interruptModes (hal w)"
      "interruptCallbacks (hal w') = interruptCallbacks (hal w)" by blast
    then show ?thesis using disabled_cong [OF _ _ _ d] by blast
  qed
qed

lemma run_keeps_disabled:
  fixes xs :: "('t::len word) op list"
  assumes "disabled e p (hal w)"
    and "unat p \<le> PI_MAX_USER_GPIO e"
    and "\<forall>cb mode. AttachInterrupt p cb mode \<notin> set xs"
    and "run e xs w = Some r"
  shows "\<exists>w'. r = Inr w' \<and> disabled e p (hal w')"
  using assms
proof (induction xs arbitrary: w)
  case Nil
  then show ?case by auto
next
  case (Cons x xs)
  from Cons.prems(4) obtain r1 where r1: "exec e x w = Some r1"
    by (cases "exec e x w") auto
  from Cons.prems(3) have nx: "\<forall>cb mode. x \<noteq> AttachInterrupt p cb mode" by auto
  from exec_keeps_disabled [OF Cons.prems(1,2) nx r1]
  obtain w1 where w1: "r1 = Inr w1" "disabled e p (hal w1)" by blast
  with r1 Cons.prems(4) have "run e xs w1 = Some r" by simp
  moreover from Cons.prems(3) have "\<forall>cb mode. AttachInterrupt p cb mode \<notin> set xs" by auto
  ultimately show ?case using Cons.IH [OF w1(2) Cons.prems(2)] by blast
qed

lemma disabled_no_call:
  assumes "disabled e p h" and "unat p \<le> PI_MAX_USER_GPIO e" and "sint event = uint p"
  shows "pigpioAlertHandler e event level tick (Some h) = Inr NoCall"
proof -
  have "int (unat p) \<le> int (PI_MAX_USER_GPIO e)" using assms(2) by (simp only: of_nat_le_iff)
  then have le: "uint p \<le> int (PI_MAX_USER_GPIO e)" by simp
  have n: "nat (uint p) = unat p" by simp
  have "arr_read (interruptEnabled h) (uint p) = Inr (interruptEnabled h ! unat p)"
    using assms(1) le n by (simp add: arr_read_def disabled_def hal_ok_def)
  then show ?thesis using assms le
    by (simp add: pigpioAlertHandler_def disabled_def)
qed

text \<open>
  Claim C7. After \<open>detachInterrupt(p)\<close> has completed for a valid pin \<open>p\<close>, no
  invocation of \<open>pigpioAlertHandler\<close> with event \<open>p\<close> invokes a callback, at any
  observed level, until a later \<open>attachInterrupt(p, ...)\<close> registers the pin again.

  Between the two, the client may call any methods of the adapter, in any order, as long
  as none of them is \<open>attachInterrupt\<close> on \<open>p\<close>; wherever that sequence returns, the
  handler, given this adapter and the event \<open>p\<close>, returns without a call.
\<close>

theorem detached_pin_stays_silent:
  fixes xs :: "('t::len word) op list"
  assumes ok: "hal_ok e (hal w)"
    and nc: "p \<noteq> RADIOLIB_NC e"
    and p: "unat p \<le> PI_MAX_USER_GPIO e"
    and xs: "\<forall>cb mode. AttachInterrupt p cb mode \<notin> set xs"
    and ev: "sint event = uint p"
  shows "\<exists>wd. detachInterrupt e w p = Inr wd \<and>
           (\<forall>r. run e xs wd = Some r \<longrightarrow>
              (\<exists>w'. r = Inr w' \<and>
                 (\<forall>level tick. pigpioAlertHandler e event level tick (Some (hal w')) = Inr NoCall)))"
proof -
  let ?wd = "lib (GpioSetAlertFuncEx p False)
          (w\<lparr>hal := (hal w)\<lparr>interruptEnabled := (interruptEnabled (hal w))[unat p := False],
                             interruptModes := (interruptModes (hal w))[unat p := 0],
                             interruptCallbacks := (interruptCallbacks (hal w))[unat p := None]\<rparr>\<rparr>)"
  have det: "detachInterrupt e w p = Inr ?wd"
    by (rule detachInterrupt_valid [OF ok nc p])
  have dis: "disabled e p (hal ?wd)"
    using ok p by (simp add: disabled_def hal_ok_def)
  have "\<exists>w'. r = Inr w' \<and>
          (\<forall>level tick. pigpioAlertHandler e event level tick (Some (hal w')) = Inr NoCall)"
    if "run e xs ?wd = Some r" for r
  proof -
    from run_keeps_disabled [OF dis p xs that]
    obtain w' where "r = Inr w'" "disabled e p (hal w')" by blast
    then show ?thesis using disabled_no_call [OF _ p ev] by blast
  qed
  with det show ?thesis by blast
qed

text \<open>
  On \<open>rpi\<close>, at the adapter armed on pin 4, where an event on pin 4 at level 1 calls
  function 7: pin 4 is detached, then the client sets its mode, attaches pin 5, opens the
  SPI channel and reads pin 4. The sequence returns, and an event on pin 4 calls nothing.
\<close>

theorem detached_pin_stays_silent_witness:
  "hal_ok rpi (hal armed_world) \<and> (4 :: u32) \<noteq> RADIOLIB_NC rpi \<and>
   unat (4 :: u32) \<le> PI_MAX_USER_GPIO rpi \<and>
   (\<forall>cb mode. AttachInterrupt 4 cb mode \<notin>
      set [PinMode 4 0, AttachInterrupt 5 (Some 9) 1, SpiBegin, DigitalRead 4 :: 32 word op]) \<and>
   sint (4 :: c_int) = uint (4 :: u32) \<and>
   pigpioAlertHandler rpi 4 1 0 (Some (hal armed_world)) = Inr (Invoke 7) \<and>
   (\<exists>wd w'. detachInterrupt rpi armed_world 4 = Inr wd \<and>
      run rpi [PinMode 4 0, AttachInterrupt 5 (Some 9) 1, SpiBegin, DigitalRead 4 :: 32 word op] wd
        = Some (Inr w') \<and>
      (\<forall>level tick. pigpioAlertHandler rpi 4 level tick (Some (hal w')) = Inr NoCall))"
proof -
  have nc: "(4 :: u32) \<noteq> RADIOLIB_NC rpi" by (simp add: rpi_def)
  have le: "unat (4 :: u32) \<le> PI_MAX_USER_GPIO rpi" by (simp add: rpi_def)
  have xs: "\<forall>cb mode. AttachInterrupt 4 cb mode \<notin>
      set [PinMode 4 0, AttachInterrupt 5 (Some 9) 1, SpiBegin, DigitalRead 4 :: 32 word op]"
    by simp
  have ev: "sint (4 :: c_int) = uint (4 :: u32)" by simp
  have before: "pigpioAlertHandler rpi 4 1 0 (Some (hal armed_world)) = Inr (Invoke 7)"
    by (simp add: pigpioAlertHandler_def arr_read_def armed_world_def armed_def PiHal_new_def rpi_def)
  from detached_pin_stays_silent [OF hal_ok_armed_world nc le xs ev]
  obtain wd where wd: "detachInterrupt rpi armed_world 4 = Inr wd"
    and silent: "\<forall>r. run rpi [PinMode 4 0, AttachInterrupt 5 (Some 9) 1, SpiBegin,
                               DigitalRead 4 :: 32 word op] wd = Some r \<longrightarrow>
              (\<exists>w'. r = Inr w' \<and>
                 (\<forall>level tick. pigpioAlertHandler rpi 4 level tick (Some (hal w')) = Inr NoCall))"
    by blast
  have returns: "\<exists>r. run rpi [PinMode 4 0, AttachInterrupt 5 (Some 9) 1, SpiBegin,
                              DigitalRead 4 :: 32 word op] wd = Some r"
    by (cases "attachInterrupt rpi (pinMode rpi wd 4 0) 5 (Some 9) 1") simp_all
  with silent have "\<exists>w'. run rpi [PinMode 4 0, AttachInterrupt 5 (Some 9) 1, SpiBegin,
                              DigitalRead 4 :: 32 word op] wd = Some (Inr w') \<and>
       (\<forall>level tick. pigpioAlertHandler rpi 4 level tick (Some (hal w')) = Inr NoCall)"
    by blast
  with wd hal_ok_armed_world nc le xs ev before show ?thesis by blast
qed

section \<open>pulseIn\<close>

text \<open>
  What \<open>pulseIn\<close> computes on a connected pin, for every width of \<open>RadioLibTime_t\<close>
  from 32 bits. Let the pin read \<open>state\<close> in the rounds before round \<open>n\<close>, the
  difference that the code computes between the tick of each of them and \<open>curtick\<close>
  being at most \<open>timeout\<close>. If the pin still reads \<open>state\<close> in round \<open>n\<close> and that
  difference is then above \<open>timeout\<close>, the result is 0. If the pin reads another level in
  round \<open>n\<close>, the result is the tick read after that read minus \<open>start\<close>, both widened
  to \<open>RadioLibTime_t\<close> before the subtraction; it is the difference of the two numbers
  when the tick has not wrapped around since \<open>start\<close>. The log shows the mode set to
  input first, then the two ticks, then the rounds.
\<close>

lemma pulseIn_rounds:
  fixes timeout :: "'t::len word"
  assumes len: "32 \<le> LENGTH('t)"
    and rounds: "\<forall>i<n. pulse_level e w pin i = state \<and>
           (ucast (pulse_tick e w pin i) :: 't word) - ucast (pulse_curtick e w pin) \<le> timeout"
  shows "pulseIn e w (RADIOLIB_NC e) state timeout = Some (w, 0) \<and>
    (pin \<noteq> RADIOLIB_NC e \<and> pulse_level e w pin n = state \<and>
     timeout < ucast (pulse_tick e w pin n) - ucast (pulse_curtick e w pin) \<longrightarrow>
       pulseIn e w pin state timeout = Some (w\<lparr>calls := pulse_calls e w pin (Suc n)\<rparr>, 0)) \<and>
    (pin \<noteq> RADIOLIB_NC e \<and> pulse_level e w pin n \<noteq> state \<longrightarrow>
       pulseIn e w pin state timeout =
         Some (w\<lparr>calls := pulse_calls e w pin (Suc n)\<rparr>,
               ucast (pulse_tick e w pin n) - ucast (pulse_start e w pin))) \<and>
    (pulse_start e w pin \<le> pulse_tick e w pin n \<longrightarrow>
       unat (ucast (pulse_tick e w pin n) - ucast (pulse_start e w pin) :: 't word) =
         unat (pulse_tick e w pin n) - unat (pulse_start e w pin))"
proof (intro conjI impI)
  show "pulseIn e w (RADIOLIB_NC e) state timeout = Some (w, 0)"
    by (simp add: pulseIn_def)
next
  assume a: "pin \<noteq> RADIOLIB_NC e \<and> pulse_level e w pin n = state \<and>
     timeout < ucast (pulse_tick e w pin n) - ucast (pulse_curtick e w pin)"
  then have nc: "pin \<noteq> RADIOLIB_NC e" by simp
  show "pulseIn e w pin state timeout = Some (w\<lparr>calls := pulse_calls e w pin (Suc n)\<rparr>, 0)"
    unfolding pulseIn_connected [OF len nc] loop_rounds [OF nc rounds]
    using loop_last_timeout [where pin = pin and e = e and w = "w\<lparr>calls := pulse_calls e w pin n\<rparr>"
        and state = state and timeout = timeout and curtick = "pulse_curtick e w pin"
        and start = "pulse_start e w pin"] a
    by (simp add: pulse_level_def pulse_tick_def pulse_calls_Suc)
next
  assume a: "pin \<noteq> RADIOLIB_NC e \<and> pulse_level e w pin n \<noteq> state"
  then have nc: "pin \<noteq> RADIOLIB_NC e" by simp
  show "pulseIn e w pin state timeout =
         Some (w\<lparr>calls := pulse_calls e w pin (Suc n)\<rparr>,
               ucast (pulse_tick e w pin n) - ucast (pulse_start e w pin))"
    unfolding pulseIn_connected [OF len nc] loop_rounds [OF nc rounds]
    using loop_last_edge [where pin = pin and e = e and w = "w\<lparr>calls := pulse_calls e w pin n\<rparr>"
        and state = state and timeout = timeout and curtick = "pulse_curtick e w pin"
        and start = "pulse_start e w pin"] a
    by (simp add: pulse_level_def pulse_tick_def pulse_calls_Suc)
next
  assume "pulse_start e w pin \<le> pulse_tick e w pin n"
  then show "unat (ucast (pulse_tick e w pin n) - ucast (pulse_start e w pin) :: 't word) =
         unat (pulse_tick e w pin n) - unat (pulse_start e w pin)"
    by (rule elapsed_no_wrap [OF len])
qed

lemma rpi_wrap_simps:
  "RADIOLIB_NC (rpi_wrap t0) = 0xFFFFFFFF"
  "PI_INPUT (rpi_wrap t0) = 0"
  "gpioRead_ret (rpi_wrap t0) cs = (if length cs < 6 then 1 else 0)"
  "gpioTick_ret (rpi_wrap t0) cs = t0 + 10 * of_nat (length cs)"
  by (simp_all add: rpi_wrap_def rpi_def)

lemma pulse_calls_fresh:
  "pulse_calls e fresh pin 0 = [GpioSetMode pin (PI_INPUT e), GpioTick, GpioTick]"
  "pulse_calls e fresh pin (Suc 0) =
     [GpioSetMode pin (PI_INPUT e), GpioTick, GpioTick, GpioRead pin, GpioTick]"
  "pulse_calls e fresh pin (Suc (Suc 0)) =
     [GpioSetMode pin (PI_INPUT e), GpioTick, GpioTick, GpioRead pin, GpioTick,
      GpioRead pin, GpioTick]"
  by (simp_all add: pulse_calls_def fresh_def)

text \<open>
  The tick wraps between the first round and the read that ends the pulse: \<open>start\<close> is
  4294967256, \<open>curtick\<close> 4294967266, the tick of the first round 4294967286, the last
  tick 10.
\<close>

lemma wrap_late:
  fixes timeout :: "'t::len word"
  assumes len: "32 \<le> LENGTH('t)"
    and tm: "(ucast (4294967286 :: u32) :: 't word) - ucast (4294967266 :: u32) \<le> timeout"
  shows "pulseIn (rpi_wrap 4294967236) fresh 4 1 timeout =
     Some (fresh\<lparr>calls := [GpioSetMode 4 0, GpioTick, GpioTick, GpioRead 4, GpioTick,
                              GpioRead 4, GpioTick]\<rparr>,
           ucast (10 :: u32) - ucast (4294967256 :: u32))"
proof -
  let ?e = "rpi_wrap 4294967236"
  have nc: "(4 :: u32) \<noteq> RADIOLIB_NC ?e" by (simp add: rpi_wrap_simps)
  have st: "pulse_start ?e fresh 4 = 4294967256"
    by (simp add: pulse_start_def rpi_wrap_simps fresh_def)
  have ct: "pulse_curtick ?e fresh 4 = 4294967266"
    by (simp add: pulse_curtick_def pulse_calls_fresh rpi_wrap_simps)
  have t0: "pulse_tick ?e fresh 4 0 = 4294967286"
    by (simp add: pulse_tick_def pulse_calls_fresh rpi_wrap_simps)
  have t1: "pulse_tick ?e fresh 4 (Suc 0) = 10"
    by (simp add: pulse_tick_def pulse_calls_fresh rpi_wrap_simps)
  have l0: "pulse_level ?e fresh 4 0 = 1"
    by (simp add: pulse_level_def pulse_calls_fresh rpi_wrap_simps)
  have l1: "pulse_level ?e fresh 4 (Suc 0) \<noteq> 1"
    by (simp add: pulse_level_def pulse_calls_fresh rpi_wrap_simps)
  have cs: "pulse_calls ?e fresh 4 (Suc (Suc 0)) =
      [GpioSetMode 4 0, GpioTick, GpioTick, GpioRead 4, GpioTick, GpioRead 4, GpioTick]"
    by (simp add: pulse_calls_fresh rpi_wrap_simps)
  have rounds: "\<forall>i<Suc 0. pulse_level ?e fresh 4 i = 1 \<and>
      (ucast (pulse_tick ?e fresh 4 i) :: 't word) - ucast (pulse_curtick ?e fresh 4) \<le> timeout"
    using tm by (simp add: l0 t0 ct)
  from pulseIn_rounds [OF len rounds] nc l1
  have "pulseIn ?e fresh 4 1 timeout =
         Some (fresh\<lparr>calls := pulse_calls ?e fresh 4 (Suc (Suc 0))\<rparr>,
               ucast (pulse_tick ?e fresh 4 (Suc 0)) - ucast (pulse_start ?e fresh 4))"
    by simp
  then show ?thesis by (simp only: cs t1 st)
qed

text \<open>
  The tick wraps between \<open>curtick\<close> and the first round: \<open>curtick\<close> is 4294967286, the
  tick of the first round 10, and the pin still reads \<open>state\<close>.
\<close>

lemma wrap_early:
  fixes timeout :: "'t::len word"
  assumes len: "32 \<le> LENGTH('t)"
    and tm: "timeout < (ucast (10 :: u32) :: 't word) - ucast (4294967286 :: u32)"
  shows "pulseIn (rpi_wrap 4294967256) fresh 4 1 timeout =
     Some (fresh\<lparr>calls := [GpioSetMode 4 0, GpioTick, GpioTick, GpioRead 4, GpioTick]\<rparr>, 0)"
proof -
  let ?e = "rpi_wrap 4294967256"
  have nc: "(4 :: u32) \<noteq> RADIOLIB_NC ?e" by (simp add: rpi_wrap_simps)
  have ct: "pulse_curtick ?e fresh 4 = 4294967286"
    by (simp add: pulse_curtick_def pulse_calls_fresh rpi_wrap_simps)
  have t0: "pulse_tick ?e fresh 4 0 = 10"
    by (simp add: pulse_tick_def pulse_calls_fresh rpi_wrap_simps)
  have l0: "pulse_level ?e fresh 4 0 = 1"
    by (simp add: pulse_level_def pulse_calls_fresh rpi_wrap_simps)
  have cs: "pulse_calls ?e fresh 4 (Suc 0) =
      [GpioSetMode 4 0, GpioTick, GpioTick, GpioRead 4, GpioTick]"
    by (simp add: pulse_calls_fresh rpi_wrap_simps)
  have rounds: "\<forall>i<0. pulse_level ?e fresh 4 i = 1 \<and>
      (ucast (pulse_tick ?e fresh 4 i) :: 't word) - ucast (pulse_curtick ?e fresh 4) \<le> timeout"
    by simp
  from pulseIn_rounds [OF len rounds] nc l0 tm
  have "pulseIn ?e fresh 4 1 timeout = Some (fresh\<lparr>calls := pulse_calls ?e fresh 4 (Suc 0)\<rparr>, 0)"
    by (simp add: t0 ct)
  then show ?thesis by (simp only: cs)
qed

text \<open>
  Claim C9. \<open>pulseIn(pin, state, timeout)\<close> returns 0 if \<open>pin\<close> is \<open>RADIOLIB_NC\<close>,
  or if the pin keeps reading \<open>state\<close> for more than \<open>timeout\<close> microseconds after the
  call; otherwise it returns the number of microseconds between entry and the first read
  of the pin that differs from \<open>state\<close>.

  \<open>start\<close> and \<open>curtick\<close> are \<open>uint32_t\<close>, as the tick is, but the two subtractions
  are made in \<open>RadioLibTime_t\<close>, that is \<open>unsigned long\<close>. Where \<open>unsigned long\<close> has
  64 bits the subtraction does not wrap around with the tick:
  \<^item> The tick is 4294967256 on entry and 10 after the read that ends the pulse, which is
    50 microseconds later. With a timeout of 100, \<open>pulseIn\<close> returns the \<open>long\<close>
    -4294967246. With a 32-bit \<open>unsigned long\<close> the same run returns 50.
  \<^item> The tick is 4294967286 when \<open>curtick\<close> is read and 10 in the first round, 20
    microseconds later, with the pin at \<open>state\<close>. With a timeout of 1000000,
    \<open>pulseIn\<close> returns 0.
\<close>

theorem pulseIn_tick_wrap:
  "pulse_start (rpi_wrap 4294967236) fresh 4 = 4294967256 \<and>
   pulse_tick (rpi_wrap 4294967236) fresh 4 1 = 10 \<and>
   pulse_tick (rpi_wrap 4294967236) fresh 4 1 - pulse_start (rpi_wrap 4294967236) fresh 4 = 50 \<and>
   pulseIn (rpi_wrap 4294967236) fresh 4 1 (100 :: 64 word) =
     Some (fresh\<lparr>calls := [GpioSetMode 4 0, GpioTick, GpioTick, GpioRead 4, GpioTick,
                              GpioRead 4, GpioTick]\<rparr>, - 4294967246) \<and>
   sint (- 4294967246 :: 64 word) = - 4294967246 \<and>
   pulseIn (rpi_wrap 4294967236) fresh 4 1 (100 :: 32 word) =
     Some (fresh\<lparr>calls := [GpioSetMode 4 0, GpioTick, GpioTick, GpioRead 4, GpioTick,
                              GpioRead 4, GpioTick]\<rparr>, 50) \<and>
   pulse_curtick (rpi_wrap 4294967256) fresh 4 = 4294967286 \<and>
   pulse_level (rpi_wrap 4294967256) fresh 4 0 = 1 \<and>
   pulse_tick (rpi_wrap 4294967256) fresh 4 0 = 10 \<and>
   pulse_tick (rpi_wrap 4294967256) fresh 4 0 - pulse_curtick (rpi_wrap 4294967256) fresh 4 = 20 \<and>
   pulseIn (rpi_wrap 4294967256) fresh 4 1 (1000000 :: 64 word) =
     Some (fresh\<lparr>calls := [GpioSetMode 4 0, GpioTick, GpioTick, GpioRead 4, GpioTick]\<rparr>, 0)"
proof -
  have a: "pulse_start (rpi_wrap 4294967236) fresh 4 = 4294967256"
    by (simp add: pulse_start_def rpi_wrap_simps fresh_def)
  have b: "pulse_tick (rpi_wrap 4294967236) fresh 4 1 = 10"
    by (simp add: pulse_tick_def pulse_calls_fresh rpi_wrap_simps)
  have c: "pulse_curtick (rpi_wrap 4294967256) fresh 4 = 4294967286"
    by (simp add: pulse_curtick_def pulse_calls_fresh rpi_wrap_simps)
  have d: "pulse_tick (rpi_wrap 4294967256) fresh 4 0 = 10"
    by (simp add: pulse_tick_def pulse_calls_fresh rpi_wrap_simps)
  have l: "pulse_level (rpi_wrap 4294967256) fresh 4 0 = 1"
    by (simp add: pulse_level_def pulse_calls_fresh rpi_wrap_simps)
  have e64: "pulseIn (rpi_wrap 4294967236) fresh 4 1 (100 :: 64 word) =
     Some (fresh\<lparr>calls := [GpioSetMode 4 0, GpioTick, GpioTick, GpioRead 4, GpioTick,
                              GpioRead 4, GpioTick]\<rparr>, - 4294967246)"
    using wrap_late [where 't = 64 and timeout = 100] by simp
  have e32: "pulseIn (rpi_wrap 4294967236) fresh 4 1 (100 :: 32 word) =
     Some (fresh\<lparr>calls := [GpioSetMode 4 0, GpioTick, GpioTick, GpioRead 4, GpioTick,
                              GpioRead 4, GpioTick]\<rparr>, 50)"
    using wrap_late [where 't = 32 and timeout = 100] by simp
  have s: "sint (- 4294967246 :: 64 word) = - 4294967246" by simp
  have t64: "pulseIn (rpi_wrap 4294967256) fresh 4 1 (1000000 :: 64 word) =
     Some (fresh\<lparr>calls := [GpioSetMode 4 0, GpioTick, GpioTick, GpioRead 4, GpioTick]\<rparr>, 0)"
    using wrap_early [where 't = 64 and timeout = 1000000] by simp
  show ?thesis
    by (simp only: a b c d l e64 e32 s t64) simp
qed

end
